theory Spec2Isabelle
  imports Main
begin

section \<open>The process descriptor\<close>

text \<open>
  \<^verbatim>\<open>process.go\<close> describes one php-fpm worker. The descriptor carries five strings and
  the handle of the command once \<^verbatim>\<open>Start\<close> has built it. Of \<^verbatim>\<open>exec.Cmd\<close> only the
  fields that the code touches are kept: \<^verbatim>\<open>Path\<close>, \<^verbatim>\<open>Args\<close> and \<^verbatim>\<open>Process\<close>, the
  operating-system process, which is \<^verbatim>\<open>nil\<close> until \<^verbatim>\<open>cmd.Start\<close> has succeeded.
  A nil pointer is \<open>None\<close>.
\<close>

type_synonym pid = nat

record Cmd =
  Path :: string
  Args :: "string list"
  Process :: "pid option"

record Process =
  Exec :: string
  ConfigFile :: string
  Listen :: string
  PidFile :: string
  ErrorLog :: string
  cmd :: "Cmd option"

text \<open>\<^verbatim>\<open>NewProcess\<close>: every field but \<^verbatim>\<open>Exec\<close> has Go's zero value.\<close>

definition NewProcess :: "string \<Rightarrow> Process" where
  "NewProcess phpFpm =
     \<lparr>Exec = phpFpm, ConfigFile = [], Listen = [], PidFile = [], ErrorLog = [], cmd = None\<rparr>"

section \<open>The configuration document\<close>

text \<open>
  \<^verbatim>\<open>Config\<close> builds its document through \<^verbatim>\<open>github.com/go-ini/ini\<close>, which is not part of
  the repository. The model keeps what the calls of \<^verbatim>\<open>Config\<close> rely on: a document is the
  list of its named sections in creation order, a section the list of its keys in creation
  order. \<^verbatim>\<open>NewSection\<close> leaves an existing section alone, \<^verbatim>\<open>f.Section(s).NewKey(k, v)\<close>
  creates the section when it is missing and overwrites the value of an existing key; both
  report an error for an empty name and change nothing then (\<^verbatim>\<open>Config\<close> drops the
  error). The unnamed default section that the library keeps for keys outside any section
  receives no key here and is left out.
\<close>

type_synonym ini_Section = "string \<times> (string \<times> string) list"
type_synonym ini_File = "ini_Section list"

definition ini_Empty :: ini_File where
  "ini_Empty = []"

definition NewSection :: "string \<Rightarrow> ini_File \<Rightarrow> ini_File" where
  "NewSection name f =
     (if name = [] \<or> name \<in> set (map fst f) then f else f @ [(name, [])])"

fun set_key :: "string \<Rightarrow> string \<Rightarrow> (string \<times> string) list \<Rightarrow> (string \<times> string) list" where
  "set_key k v [] = [(k, v)]"
| "set_key k v ((k', v') # kvs) =
     (if k' = k then (k, v) # kvs else (k', v') # set_key k v kvs)"

fun in_section :: "string \<Rightarrow> string \<Rightarrow> string \<Rightarrow> ini_File \<Rightarrow> ini_File" where
  "in_section s k v [] = []"
| "in_section s k v ((s', kvs) # f) =
     (if s' = s then (s', set_key k v kvs) # f else (s', kvs) # in_section s k v f)"

definition NewKey :: "string \<Rightarrow> string \<Rightarrow> string \<Rightarrow> ini_File \<Rightarrow> ini_File" where
  "NewKey s k v f = (if k = [] then f else in_section s k v (NewSection s f))"

definition key_value :: "ini_File \<Rightarrow> string \<Rightarrow> string \<Rightarrow> string option" where
  "key_value f s k = (case map_of f s of None \<Rightarrow> None | Some kvs \<Rightarrow> map_of kvs k)"

definition Config :: "Process \<Rightarrow> ini_File" where
  "Config proc =
     (let f = ini_Empty;
          f = NewSection ''global'' f;
          f = NewKey ''global'' ''pid'' (PidFile proc) f;
          f = NewKey ''global'' ''error_log'' (ErrorLog proc) f;
          f = NewSection ''www'' f;
          f = NewKey ''www'' ''listen'' (Listen proc) f;
          f = NewKey ''www'' ''pm'' ''dynamic'' f;
          f = NewKey ''www'' ''pm.max_children'' ''5'' f;
          f = NewKey ''www'' ''pm.start_servers'' ''2'' f;
          f = NewKey ''www'' ''pm.min_spare_servers'' ''1'' f;
          f = NewKey ''www'' ''pm.max_spare_servers'' ''3'' f
      in f)"

section \<open>Deriving the paths from a directory\<close>

text \<open>
  \<^verbatim>\<open>SetDatadir\<close> joins with \<^verbatim>\<open>path.Join\<close> of Go's standard library, which is not
  part of the repository either. \<^verbatim>\<open>path.Join\<close> skips leading empty elements, joins the
  rest with a slash and returns \<^verbatim>\<open>path.Clean\<close> of that; all elements empty gives the
  empty string. \<^verbatim>\<open>path.Clean\<close> is modelled on the elements between slashes, kept on a
  stack with the last element first: empty elements and \<^verbatim>\<open>.\<close> are dropped, \<^verbatim>\<open>..\<close>
  removes the element before it when there is one that is not \<^verbatim>\<open>..\<close> itself, is dropped
  at the start of a rooted path and kept at the start of a relative one. The empty result of
  a relative path is \<^verbatim>\<open>.\<close>.
\<close>

fun split_slash :: "string \<Rightarrow> string list" where
  "split_slash [] = [[]]"
| "split_slash (c # cs) =
     (if c = CHR ''/'' then [] # split_slash cs
      else (case split_slash cs of [] \<Rightarrow> [[c]] | e # es \<Rightarrow> (c # e) # es))"

fun join_slash :: "string list \<Rightarrow> string" where
  "join_slash [] = []"
| "join_slash [e] = e"
| "join_slash (e # es) = e @ ''/'' @ join_slash es"

definition clean_step :: "bool \<Rightarrow> string list \<Rightarrow> string \<Rightarrow> string list" where
  "clean_step rooted st e =
     (if e = [] \<or> e = ''.'' then st
      else if e = ''..'' then
        (case st of
           [] \<Rightarrow> if rooted then [] else [''..'']
         | e' # rest \<Rightarrow> if e' = ''..'' then (if rooted then st else ''..'' # st) else rest)
      else e # st)"

definition path_Clean :: "string \<Rightarrow> string" where
  "path_Clean p =
     (if p = [] then ''.''
      else
        let rooted = (hd p = CHR ''/'');
            st = foldl (clean_step rooted) [] (split_slash p)
        in if rooted then ''/'' @ join_slash (rev st)
           else if st = [] then ''.''
           else join_slash (rev st))"

definition path_Join :: "string list \<Rightarrow> string" where
  "path_Join elem =
     (case dropWhile (\<lambda>e. e = []) elem of
        [] \<Rightarrow> []
      | es \<Rightarrow> path_Clean (join_slash es))"

definition SetDatadir :: "Process \<Rightarrow> string \<Rightarrow> Process" where
  "SetDatadir proc prefix =
     proc\<lparr>PidFile := path_Join [prefix, ''phpfpm.pid''],
          ErrorLog := path_Join [prefix, ''phpfpm.error_log''],
          Listen := path_Join [prefix, ''phpfpm.sock'']\<rparr>"

section \<open>Saving the configuration\<close>

text \<open>
  Go errors are values. Failures of the operating system carry the system's message;
  \<^verbatim>\<open>fmt.Errorf\<close> builds an error of the program's own.
\<close>

datatype error = OsError string | Errorf string

text \<open>
  \<^verbatim>\<open>SaveTo\<close> of the ini library writes the document to a path and reports whether the
  write worked. The file system is a map from paths to the documents written, with the set
  of paths that can be written now (the directory exists, permissions allow it): the
  outcome of the write is the file system's decision, not the program's.
\<close>

record filesystem =
  files :: "string \<Rightarrow> ini_File option"
  writable :: "string \<Rightarrow> bool"

definition SaveTo :: "ini_File \<Rightarrow> string \<Rightarrow> filesystem \<Rightarrow> error option \<times> filesystem" where
  "SaveTo f path fs =
     (if writable fs path then (None, fs\<lparr>files := (files fs)(path \<mapsto> f)\<rparr>)
      else (Some (OsError path), fs))"

text \<open>
  \<^verbatim>\<open>SaveConfig\<close> has no result: the error of \<^verbatim>\<open>SaveTo\<close> is not bound to anything.
  The model returns the descriptor and the file system after the call.
\<close>

definition SaveConfig :: "Process \<Rightarrow> string \<Rightarrow> filesystem \<Rightarrow> Process \<times> filesystem" where
  "SaveConfig proc path fs =
     (let proc = proc\<lparr>ConfigFile := path\<rparr>;
          (err, fs) = SaveTo (Config proc) (ConfigFile proc) fs
      in (proc, fs))"

text \<open>An ordinary file name: not empty, not \<^verbatim>\<open>.\<close> or \<^verbatim>\<open>..\<close>, no slash in it.\<close>

definition plain :: "string \<Rightarrow> bool" where
  "plain n = (n \<noteq> [] \<and> n \<noteq> ''.'' \<and> n \<noteq> ''..'' \<and> CHR ''/'' \<notin> set n)"

section \<open>Resolving the listen specification\<close>

text \<open>
  Modelled from the spec: the method \<^verbatim>\<open>Address\<close> of the descriptor, which resolves the
  listen specification to a transport and a target. The test \<^verbatim>\<open>TestProcess_Address\<close>
  calls it, \<^verbatim>\<open>process.go\<close> does not define it. The specification's resolver first asks
  whether the whole string is a digit sequence, a port written without its colon, which
  resolves to \<^verbatim>\<open>tcp\<close> with a colon put in front. Otherwise a string with no colon is a
  socket path, resolved to \<^verbatim>\<open>unix\<close> unchanged, and a string with a colon is split at its
  last colon and resolved to \<^verbatim>\<open>tcp\<close>: to the colon and the port when nothing stands
  before the colon, to host, colon and port otherwise. Nothing is validated and no error
  is raised.
\<close>

definition is_digit :: "char \<Rightarrow> bool" where
  \<comment> \<open>Modelled from the spec: one of the ten decimal digits.\<close>
  "is_digit c = (c \<in> set ''0123456789'')"

definition digits :: "string \<Rightarrow> bool" where
  \<comment> \<open>Modelled from the spec: a pure digit sequence, at least one digit long.\<close>
  "digits s = (s \<noteq> [] \<and> list_all is_digit s)"

definition split_last_colon :: "string \<Rightarrow> string \<times> string" where
  \<comment> \<open>Modelled from the spec: the parts before and after the last colon.\<close>
  "split_last_colon s =
     (rev (tl (dropWhile (\<lambda>c. c \<noteq> CHR '':'') (rev s))),
      rev (takeWhile (\<lambda>c. c \<noteq> CHR '':'') (rev s)))"

definition Address :: "Process \<Rightarrow> string \<times> string" where
  \<comment> \<open>Modelled from the spec: the resolver of section 4.1 with its digit-sequence case first.\<close>
  "Address proc =
     (let s = Listen proc
      in if digits s then (''tcp'', '':'' @ s)
         else if CHR '':'' \<notin> set s then (''unix'', s)
         else (case split_last_colon s of
                 (host, port) \<Rightarrow>
                   if host = [] then (''tcp'', '':'' @ port)
                   else (''tcp'', host @ '':'' @ port)))"

section \<open>Starting the worker and waiting for it to listen\<close>

text \<open>
  What the operating system answers is not the program's to decide: whether a pipe can be
  made, whether the executable starts, how long a connection attempt begun at a given
  instant takes and whether it succeeds, whether a signal is delivered. These answers are
  the fields of a \<open>world\<close>, and every function below that asks the system takes one.
  Time is counted in nanoseconds, the unit of \<^verbatim>\<open>time.Duration\<close>, from the instant at
  which \<^verbatim>\<open>Start\<close> reaches its \<^verbatim>\<open>select\<close>. When both cases of a \<^verbatim>\<open>select\<close> can
  proceed Go picks one at random; \<open>select_conn\<close> is that pick.
\<close>

type_synonym stream = nat
type_synonym conn = nat

datatype signal = Interrupt | Kill

datatype panic = NilPointerDereference

record world =
  stdout_pipe :: "string + stream"
  stderr_pipe :: "string + stream"
  start_process :: "string \<Rightarrow> string list \<Rightarrow> string + pid"
  dial :: "string \<Rightarrow> string \<Rightarrow> nat \<Rightarrow> nat \<times> (string + conn)"
  select_conn :: bool
  deliver :: "pid \<Rightarrow> signal \<Rightarrow> string option"
  reap :: "pid \<Rightarrow> string + nat"

text \<open>The calls made on the system, in the order in which they are begun.\<close>

datatype event =
    EvStdoutPipe
  | EvStderrPipe
  | EvStart string "string list"
  | EvAfter nat
  | EvDial string string
  | EvSleep nat
  | EvSend conn
  | EvSignal pid signal
  | EvWait pid

fun is_dial :: "event \<Rightarrow> bool" where
  "is_dial (EvDial network address) = True"
| "is_dial e = False"

fun is_send :: "event \<Rightarrow> bool" where
  "is_send (EvSend c) = True"
| "is_send e = False"

text \<open>The events of the readiness wait: the timer, the connection attempts, the hand-off.\<close>

fun is_readiness :: "event \<Rightarrow> bool" where
  "is_readiness (EvAfter d) = True"
| "is_readiness (EvDial network address) = True"
| "is_readiness (EvSleep d) = True"
| "is_readiness (EvSend c) = True"
| "is_readiness e = False"

text \<open>The events that end or reap the process: any signal, and the wait for its exit.\<close>

fun is_cleanup :: "event \<Rightarrow> bool" where
  "is_cleanup (EvSignal p s) = True"
| "is_cleanup (EvWait p) = True"
| "is_cleanup e = False"

definition Millisecond :: nat where
  "Millisecond = 1000000"

definition Second :: nat where
  "Second = 1000000000"

text \<open>
  One turn of the loop of \<^verbatim>\<open>waitConn\<close> begins with \<^verbatim>\<open>net.Dial("unix", proc.Listen)\<close>.
  The attempt begun at \<open>t\<close> ends at the instant given, with a connection or without.
\<close>

datatype attempt = Failed nat | Connected conn nat

definition dial_unix :: "world \<Rightarrow> Process \<Rightarrow> nat \<Rightarrow> attempt" where
  "dial_unix w proc t =
     (case dial w ''unix'' (Listen proc) t of
        (d, Inl e) \<Rightarrow> Failed (t + d)
      | (d, Inr c) \<Rightarrow> Connected c (t + d))"

text \<open>
  The channel of \<^verbatim>\<open>waitConn\<close> has no buffer: a send completes only while somebody
  receives. \<^verbatim>\<open>Start\<close> receives from it until the timer fires at \<open>until\<close>, and nobody
  receives afterwards.
\<close>

definition receiving :: "world \<Rightarrow> nat \<Rightarrow> nat \<Rightarrow> bool" where
  "receiving w until t = (t < until \<or> (t = until \<and> select_conn w))"

text \<open>
  The goroutine of \<^verbatim>\<open>waitConn\<close>. Its loop has no bound, so the model runs at most
  \<open>k\<close> turns of it, beginning at \<open>t\<close>, and says where the goroutine is then: still
  looping, blocked in the send of a connection that nobody receives, or out of the loop
  after the send.
\<close>

datatype goroutine = Looping | Blocked conn nat | Exited conn nat

fun waitConn :: "world \<Rightarrow> Process \<Rightarrow> nat \<Rightarrow> nat \<Rightarrow> nat \<Rightarrow> goroutine \<times> event list" where
  "waitConn w proc until 0 t = (Looping, [])"
| "waitConn w proc until (Suc k) t =
     (case dial_unix w proc t of
        Failed t' \<Rightarrow>
          (case waitConn w proc until k (t' + 2 * Millisecond) of
             (g, evs) \<Rightarrow> (g, EvDial ''unix'' (Listen proc) # EvSleep (2 * Millisecond) # evs))
      | Connected c t' \<Rightarrow>
          if receiving w until t' then (Exited c t', [EvDial ''unix'' (Listen proc), EvSend c])
          else (Blocked c t', [EvDial ''unix'' (Listen proc)]))"

text \<open>
  The \<^verbatim>\<open>select\<close> of \<^verbatim>\<open>Start\<close>, which returns when the timer fires at \<open>until\<close> or when
  the goroutine hands a connection over, whichever is first. The result is the connection
  received, if any, the instant of the return and the calls the goroutine has begun by
  then. Every turn that fails sleeps two milliseconds, so the timer is reached.
\<close>

function select_wait :: "world \<Rightarrow> Process \<Rightarrow> nat \<Rightarrow> nat \<Rightarrow> conn option \<times> nat \<times> event list" where
  "select_wait w proc until t =
     (if until \<le> t then (None, until, [])
      else
        (case dial_unix w proc t of
           Failed t' \<Rightarrow>
             if until \<le> t' then (None, until, [EvDial ''unix'' (Listen proc)])
             else
               (case select_wait w proc until (t' + 2 * Millisecond) of
                  (r, t'', evs) \<Rightarrow>
                    (r, t'', EvDial ''unix'' (Listen proc) # EvSleep (2 * Millisecond) # evs))
         | Connected c t' \<Rightarrow>
             if receiving w until t' then (Some c, t', [EvDial ''unix'' (Listen proc), EvSend c])
             else (None, until, [EvDial ''unix'' (Listen proc)])))"
  by pat_completeness auto
termination
  by (relation "measure (\<lambda>(w, proc, until, t). until - t)")
     (auto simp: dial_unix_def Millisecond_def split: prod.splits sum.splits)

declare select_wait.simps [simp del]

text \<open>
  \<^verbatim>\<open>Start\<close> returns its three results, and the model adds what the call leaves behind:
  the descriptor with its command, the calls made, and the time spent in the
  \<^verbatim>\<open>select\<close>.
\<close>

record started =
  stdout :: "stream option"
  stderr :: "stream option"
  err :: "error option"
  proc_after :: Process
  trace :: "event list"
  waited :: nat

definition Start :: "world \<Rightarrow> Process \<Rightarrow> started" where
  "Start w proc =
     (let c = \<lparr>Path = Exec proc,
               Args = [Exec proc, ''--fpm-config'', ConfigFile proc, ''-F'', ''-n'', ''-e''],
               Process = None\<rparr>;
          proc = proc\<lparr>cmd := Some c\<rparr>
      in case stdout_pipe w of
           Inl e \<Rightarrow>
             \<lparr>stdout = None, stderr = None, err = Some (OsError e), proc_after = proc,
              trace = [EvStdoutPipe], waited = 0\<rparr>
         | Inr out \<Rightarrow>
             (case stderr_pipe w of
                Inl e \<Rightarrow>
                  \<lparr>stdout = Some out, stderr = None, err = Some (OsError e), proc_after = proc,
                   trace = [EvStdoutPipe, EvStderrPipe], waited = 0\<rparr>
              | Inr er \<Rightarrow>
                  (case start_process w (Path c) (Args c) of
                     Inl e \<Rightarrow>
                       \<lparr>stdout = Some out, stderr = Some er, err = Some (OsError e),
                        proc_after = proc,
                        trace = [EvStdoutPipe, EvStderrPipe, EvStart (Path c) (Args c)],
                        waited = 0\<rparr>
                   | Inr p \<Rightarrow>
                       (let proc = proc\<lparr>cmd := Some (c\<lparr>Process := Some p\<rparr>)\<rparr>
                        in case select_wait w proc (4 * Second) 0 of
                             (None, t, evs) \<Rightarrow>
                               \<lparr>stdout = Some out, stderr = Some er,
                                err = Some (Errorf ''time out''), proc_after = proc,
                                trace = [EvStdoutPipe, EvStderrPipe, EvStart (Path c) (Args c),
                                         EvAfter (4 * Second)] @ evs,
                                waited = t\<rparr>
                           | (Some conn, t, evs) \<Rightarrow>
                               \<lparr>stdout = Some out, stderr = Some er, err = None,
                                proc_after = proc,
                                trace = [EvStdoutPipe, EvStderrPipe, EvStart (Path c) (Args c),
                                         EvAfter (4 * Second)] @ evs,
                                waited = t\<rparr>))))"

section \<open>Stopping and reaping the worker\<close>

text \<open>
  \<^verbatim>\<open>proc.cmd.Process.Signal(os.Interrupt)\<close> reads through two pointers. With \<^verbatim>\<open>cmd\<close>
  nil the field access panics; with \<^verbatim>\<open>cmd.Process\<close> nil the method reads the process
  through its nil receiver and panics as well. \<^verbatim>\<open>Wait\<close> reads the same two pointers.
\<close>

definition Stop :: "world \<Rightarrow> Process \<Rightarrow> panic + error option \<times> event list" where
  "Stop w proc =
     (case cmd proc of
        None \<Rightarrow> Inl NilPointerDereference
      | Some c \<Rightarrow>
          (case Process c of
             None \<Rightarrow> Inl NilPointerDereference
           | Some p \<Rightarrow> Inr (map_option OsError (deliver w p Interrupt), [EvSignal p Interrupt])))"

definition Wait :: "world \<Rightarrow> Process \<Rightarrow> panic + (nat option \<times> error option) \<times> event list" where
  "Wait w proc =
     (case cmd proc of
        None \<Rightarrow> Inl NilPointerDereference
      | Some c \<Rightarrow>
          (case Process c of
             None \<Rightarrow> Inl NilPointerDereference
           | Some p \<Rightarrow>
               Inr (case reap w p of
                      Inl e \<Rightarrow> (None, Some (OsError e))
                    | Inr state \<Rightarrow> (Some state, None),
                    [EvWait p])))"

section \<open>Example worlds\<close>

text \<open>
  Concrete worlds to run the model in. In each the pipes are made and the executable
  starts as process 4711; they differ in how connection attempts end. A descriptor as
  \<^verbatim>\<open>SetDatadir\<close> and \<^verbatim>\<open>SaveConfig\<close> leave it stands beside them.
\<close>

definition world_of :: "(string \<Rightarrow> string \<Rightarrow> nat \<Rightarrow> nat \<times> (string + conn)) \<Rightarrow> world" where
  "world_of d =
     \<lparr>stdout_pipe = Inr 3, stderr_pipe = Inr 4, start_process = (\<lambda>path args. Inr 4711),
      dial = d, select_conn = False, deliver = (\<lambda>p s. None), reap = (\<lambda>p. Inr 0)\<rparr>"

text \<open>Nothing ever listens: every attempt fails after a millisecond.\<close>

definition silent_world :: world where
  "silent_world = world_of (\<lambda>network address t. (Millisecond, Inl ''connection refused''))"

text \<open>The worker listens on the socket from the start.\<close>

definition ready_world :: world where
  "ready_world =
     world_of (\<lambda>network address t.
       (Millisecond,
        if network = ''unix'' \<and> address = ''/srv/var/phpfpm.sock'' then Inr 7
        else Inl ''connection refused''))"

text \<open>
  The worker is slow: an attempt takes a second, and only one begun four seconds or more
  after the start of the wait finds it listening.
\<close>

definition late_world :: world where
  "late_world =
     world_of (\<lambda>network address t.
       (Second,
        if network = ''unix'' \<and> address = ''/srv/var/phpfpm.sock'' \<and> 4 * Second \<le> t then Inr 7
        else Inl ''connection refused''))"

text \<open>The worker listens on TCP port 9000 of the local host, and on no socket file.\<close>

definition tcp_world :: world where
  "tcp_world =
     world_of (\<lambda>network address t.
       (Millisecond,
        if network = ''tcp'' \<and> address = ''127.0.0.1:9000'' then Inr 7
        else Inl ''no such file or directory''))"

definition socket_proc :: Process where
  "socket_proc =
     \<lparr>Exec = ''/usr/sbin/php5-fpm'', ConfigFile = ''/srv/etc/fpm.conf'',
      Listen = ''/srv/var/phpfpm.sock'', PidFile = ''/srv/var/phpfpm.pid'',
      ErrorLog = ''/srv/var/phpfpm.error_log'', cmd = None\<rparr>"

definition tcp_proc :: Process where
  "tcp_proc = socket_proc\<lparr>Listen := ''127.0.0.1:9000''\<rparr>"

section \<open>Properties of the configuration document\<close>

lemma Config_document:
  "Config proc =
     [(''global'', [(''pid'', PidFile proc), (''error_log'', ErrorLog proc)]),
      (''www'', [(''listen'', Listen proc), (''pm'', ''dynamic''),
                 (''pm.max_children'', ''5''), (''pm.start_servers'', ''2''),
                 (''pm.min_spare_servers'', ''1''), (''pm.max_spare_servers'', ''3'')])]"
  unfolding Config_def Let_def ini_Empty_def
  by (simp add: NewSection_def NewKey_def)

text \<open>
  C7. Whatever the descriptor holds, the document of \<^verbatim>\<open>Config\<close> has exactly two
  sections, \<^verbatim>\<open>global\<close> and \<^verbatim>\<open>www\<close>; the four pool-manager limits are the constants
  5, 2, 1 and 3; and \<^verbatim>\<open>listen\<close>, \<^verbatim>\<open>pid\<close> and \<^verbatim>\<open>error_log\<close> carry the descriptor's
  \<^verbatim>\<open>Listen\<close>, \<^verbatim>\<open>PidFile\<close> and \<^verbatim>\<open>ErrorLog\<close> unchanged.
\<close>

theorem Config_two_sections_fixed_tuning:
  "length (Config proc) = 2
   \<and> map fst (Config proc) = [''global'', ''www'']
   \<and> key_value (Config proc) ''www'' ''pm.max_children'' = Some ''5''
   \<and> key_value (Config proc) ''www'' ''pm.start_servers'' = Some ''2''
   \<and> key_value (Config proc) ''www'' ''pm.min_spare_servers'' = Some ''1''
   \<and> key_value (Config proc) ''www'' ''pm.max_spare_servers'' = Some ''3''
   \<and> key_value (Config proc) ''www'' ''listen'' = Some (Listen proc)
   \<and> key_value (Config proc) ''global'' ''pid'' = Some (PidFile proc)
   \<and> key_value (Config proc) ''global'' ''error_log'' = Some (ErrorLog proc)"
  by (simp add: Config_document key_value_def)

section \<open>Properties of path joining\<close>

lemma split_slash_nonempty: "split_slash s \<noteq> []"
  by (induction s) (auto split: list.splits)

lemma split_slash_append: "split_slash (a @ CHR ''/'' # b) = split_slash a @ split_slash b"
proof (induction a)
  case Nil
  show ?case by simp
next
  case (Cons c a)
  obtain e es where "split_slash a = e # es"
    using split_slash_nonempty [of a] by (cases "split_slash a") auto
  with Cons show ?case by simp
qed

lemma split_slash_plain: "CHR ''/'' \<notin> set n \<Longrightarrow> split_slash n = [n]"
  by (induction n) auto

lemma join_slash_snoc: "xs \<noteq> [] \<Longrightarrow> join_slash (xs @ [n]) = join_slash xs @ ''/'' @ n"
  by (induction xs rule: join_slash.induct) auto

lemma clean_step_plain: "plain n \<Longrightarrow> clean_step r st n = n # st"
  by (simp add: clean_step_def plain_def)

lemma clean_step_empty: "clean_step r st [] = st"
  by (simp add: clean_step_def)

text \<open>
  A name appended to a path that is already clean stays where it is put, after one slash
  or after two.
\<close>

lemma path_Clean_append:
  assumes D: "path_Clean D = D" "D \<noteq> ''.''" "D \<noteq> ''/''" and n: "plain n"
    and mid: "mid = ''/'' \<or> mid = ''//''"
  shows "path_Clean (D @ mid @ n) = D @ ''/'' @ n"
proof -
  have ne: "D \<noteq> []" using D(1) by (auto simp: path_Clean_def)
  define r where "r = (hd D = CHR ''/'')"
  define st where "st = foldl (clean_step r) [] (split_slash D)"
  have sp: "split_slash (D @ mid @ n) = split_slash D @ [n]
            \<or> split_slash (D @ mid @ n) = split_slash D @ [[], n]"
    using mid n by (auto simp: split_slash_append split_slash_plain plain_def)
  have st': "foldl (clean_step r) [] (split_slash (D @ mid @ n)) = n # st"
    using sp n by (auto simp: st_def clean_step_plain clean_step_empty)
  have hd': "hd (D @ mid @ n) = hd D" using ne by simp
  have stne: "st \<noteq> []"
    using D ne by (auto simp: path_Clean_def Let_def r_def st_def split: if_splits)
  have body: "(if r then ''/'' @ join_slash (rev st) else join_slash (rev st)) = D"
    using D(1) ne stne by (auto simp: path_Clean_def Let_def r_def st_def split: if_splits)
  have "path_Clean (D @ mid @ n)
        = (if r then ''/'' @ join_slash (rev (n # st)) else join_slash (rev (n # st)))"
    unfolding path_Clean_def Let_def hd' r_def [symmetric] st' using ne by simp
  also have "\<dots> = (if r then ''/'' @ join_slash (rev st) else join_slash (rev st)) @ ''/'' @ n"
    using stne by (simp add: join_slash_snoc)
  finally show ?thesis using body by simp
qed

lemma path_Join_clean_prefix:
  assumes "path_Clean D = D" "D \<noteq> ''.''" "D \<noteq> ''/''" "plain n"
    and "prefix = D \<or> prefix = D @ ''/''"
  shows "path_Join [prefix, n] = D @ ''/'' @ n"
proof -
  have ne: "D \<noteq> []" using assms(1) by (auto simp: path_Clean_def)
  from assms(5) show ?thesis
  proof
    assume "prefix = D"
    then have "path_Join [prefix, n] = path_Clean (D @ ''/'' @ n)"
      using ne by (simp add: path_Join_def)
    then show ?thesis using path_Clean_append [OF assms(1-4), of "''/''"] by simp
  next
    assume "prefix = D @ ''/''"
    then have "path_Join [prefix, n] = path_Clean (D @ ''//'' @ n)"
      using ne by (simp add: path_Join_def)
    then show ?thesis using path_Clean_append [OF assms(1-4), of "''//''"] by simp
  qed
qed

text \<open>
  Where the directory is one that \<^verbatim>\<open>path.Clean\<close> leaves as it is, other than
  \<^verbatim>\<open>.\<close> and \<^verbatim>\<open>/\<close>, given as it is or with one slash after it, the joined
  paths are the directory, one slash and the file name: the three statements of the
  method's documentation.
\<close>

lemma SetDatadir_clean_prefix:
  assumes "path_Clean D = D" and "D \<noteq> ''.''" and "D \<noteq> ''/''"
    and "prefix = D \<or> prefix = D @ ''/''"
  shows "SetDatadir proc prefix
         = proc\<lparr>PidFile := D @ ''/phpfpm.pid'', ErrorLog := D @ ''/phpfpm.error_log'',
                Listen := D @ ''/phpfpm.sock''\<rparr>"
proof -
  have "path_Join [prefix, ''phpfpm.pid''] = D @ ''/'' @ ''phpfpm.pid''"
    by (rule path_Join_clean_prefix [OF assms(1-3) _ assms(4)]) (simp add: plain_def)
  moreover have "path_Join [prefix, ''phpfpm.error_log''] = D @ ''/'' @ ''phpfpm.error_log''"
    by (rule path_Join_clean_prefix [OF assms(1-3) _ assms(4)]) (simp add: plain_def)
  moreover have "path_Join [prefix, ''phpfpm.sock''] = D @ ''/'' @ ''phpfpm.sock''"
    by (rule path_Join_clean_prefix [OF assms(1-3) _ assms(4)]) (simp add: plain_def)
  ultimately show ?thesis by (simp add: SetDatadir_def)
qed

lemma SetDatadir_srv_var:
  "path_Clean ''/srv/var'' = ''/srv/var''
   \<and> SetDatadir (NewProcess ''/usr/sbin/php5-fpm'') ''/srv/var/''
       = (NewProcess ''/usr/sbin/php5-fpm'')
           \<lparr>PidFile := ''/srv/var/phpfpm.pid'', ErrorLog := ''/srv/var/phpfpm.error_log'',
            Listen := ''/srv/var/phpfpm.sock''\<rparr>"
proof -
  have c: "path_Clean ''/srv/var'' = ''/srv/var''"
    by (simp add: path_Clean_def clean_step_def)
  show ?thesis
    using c SetDatadir_clean_prefix [OF c, of "''/srv/var/''" "NewProcess ''/usr/sbin/php5-fpm''"]
    by simp
qed

text \<open>
  C8. The claim is that for every directory \<open>D\<close> the pid file becomes \<open>D\<close>\<^verbatim>\<open>/phpfpm.pid\<close>,
  the error log \<open>D\<close>\<^verbatim>\<open>/phpfpm.error_log\<close> and the listen specification
  \<open>D\<close>\<^verbatim>\<open>/phpfpm.sock\<close>, byte for byte; the documentation of \<^verbatim>\<open>SetDatadir\<close> says the
  same (\<^verbatim>\<open>process.PidFile = basepath + "/phpfpm.pid"\<close> and so on) and
  \<^verbatim>\<open>TestProcess_SetPrefix\<close> compares with these concatenations. The code joins with
  \<^verbatim>\<open>path.Join\<close> instead, which rewrites the directory. Evaluated at the relative
  directory \<^verbatim>\<open>./data\<close>, the three fields lose the leading \<^verbatim>\<open>./\<close>: the pid file is
  \<^verbatim>\<open>data/phpfpm.pid\<close>, which is not \<^verbatim>\<open>./data\<close> followed by \<^verbatim>\<open>/phpfpm.pid\<close>, and
  likewise for the other two.
\<close>

theorem SetDatadir_dot_prefix:
  "SetDatadir (NewProcess ''/usr/sbin/php5-fpm'') ''./data''
     = (NewProcess ''/usr/sbin/php5-fpm'')
         \<lparr>PidFile := ''data/phpfpm.pid'', ErrorLog := ''data/phpfpm.error_log'',
          Listen := ''data/phpfpm.sock''\<rparr>
   \<and> PidFile (SetDatadir (NewProcess ''/usr/sbin/php5-fpm'') ''./data'')
       \<noteq> ''./data'' @ ''/phpfpm.pid''
   \<and> ErrorLog (SetDatadir (NewProcess ''/usr/sbin/php5-fpm'') ''./data'')
       \<noteq> ''./data'' @ ''/phpfpm.error_log''
   \<and> Listen (SetDatadir (NewProcess ''/usr/sbin/php5-fpm'') ''./data'')
       \<noteq> ''./data'' @ ''/phpfpm.sock''"
  by (simp add: SetDatadir_def path_Join_def path_Clean_def clean_step_def NewProcess_def)

section \<open>Properties of saving the configuration\<close>

text \<open>
  C9. For every path, \<^verbatim>\<open>SaveConfig\<close> sets \<^verbatim>\<open>ConfigFile\<close> to that path and returns no
  error: its result is the descriptor and the file system, nothing else. When the write
  fails the file system is untouched, so \<^verbatim>\<open>ConfigFile\<close> then names a file that
  \<^verbatim>\<open>SaveConfig\<close> did not write; when the write works the file holds the document of
  \<^verbatim>\<open>Config\<close>.
\<close>

theorem SaveConfig_sets_path_drops_error:
  "ConfigFile (fst (SaveConfig proc path fs)) = path
   \<and> (\<not> writable fs path \<longrightarrow> snd (SaveConfig proc path fs) = fs)
   \<and> (writable fs path \<longrightarrow>
        files (snd (SaveConfig proc path fs)) path = Some (Config proc))"
  by (simp add: SaveConfig_def SaveTo_def Let_def Config_document)

theorem SaveConfig_sets_path_drops_error_witness:
  "\<not> writable \<lparr>files = Map.empty, writable = (\<lambda>p. False)\<rparr> ''/nowhere/fpm.conf''
   \<and> ConfigFile (fst (SaveConfig (NewProcess ''/usr/sbin/php5-fpm'') ''/nowhere/fpm.conf''
                        \<lparr>files = Map.empty, writable = (\<lambda>p. False)\<rparr>)) = ''/nowhere/fpm.conf''
   \<and> files (snd (SaveConfig (NewProcess ''/usr/sbin/php5-fpm'') ''/nowhere/fpm.conf''
                        \<lparr>files = Map.empty, writable = (\<lambda>p. False)\<rparr>)) ''/nowhere/fpm.conf'' = None"
  using SaveConfig_sets_path_drops_error
          [of "NewProcess ''/usr/sbin/php5-fpm''" "''/nowhere/fpm.conf''"
              "\<lparr>files = Map.empty, writable = (\<lambda>p. False)\<rparr>"]
  by simp

section \<open>Properties of the resolver\<close>

lemma colon_not_digit: "\<not> is_digit (CHR '':'')"
  by (simp add: is_digit_def)

lemma digits_no_colon: "digits s \<Longrightarrow> CHR '':'' \<notin> set s"
  using colon_not_digit by (auto simp: digits_def list_all_iff)

lemma split_last_colon_join:
  assumes "CHR '':'' \<in> set s"
  shows "fst (split_last_colon s) @ '':'' @ snd (split_last_colon s) = s"
proof -
  let ?P = "\<lambda>c. c \<noteq> CHR '':''"
  have "dropWhile ?P (rev s) \<noteq> []" using assms by (simp add: dropWhile_eq_Nil_conv)
  then obtain x xs where dw: "dropWhile ?P (rev s) = x # xs" by (cases "dropWhile ?P (rev s)") auto
  then have "x = CHR '':''" using hd_dropWhile [of ?P "rev s"] by auto
  with dw have "rev s = takeWhile ?P (rev s) @ CHR '':'' # xs"
    using takeWhile_dropWhile_id [of ?P "rev s"] by simp
  then have "rev (rev s) = rev (takeWhile ?P (rev s) @ CHR '':'' # xs)" by (rule arg_cong)
  then have "s = rev xs @ CHR '':'' # rev (takeWhile ?P (rev s))" by simp
  then show ?thesis using dw by (simp add: split_last_colon_def)
qed

lemma Address_colon:
  assumes "CHR '':'' \<in> set (Listen proc)"
  shows "Address proc = (''tcp'', Listen proc)"
proof -
  have nd: "\<not> digits (Listen proc)" using assms digits_no_colon by blast
  obtain h p where hp: "split_last_colon (Listen proc) = (h, p)" by (cases "split_last_colon (Listen proc)")
  then have "h @ '':'' @ p = Listen proc" using split_last_colon_join [OF assms] by simp
  then show ?thesis using nd assms hp by (auto simp: Address_def Let_def)
qed

text \<open>
  C6. The resolver gives every listen specification a transport and a target, and the three
  forms cover every string: a specification written \<open>ip\<close>\<^verbatim>\<open>:\<close>\<open>port\<close> resolves to
  \<^verbatim>\<open>tcp\<close> and the string unchanged; a pure digit sequence resolves to \<^verbatim>\<open>tcp\<close> and
  the digits after a colon; a string with no colon that is not a pure digit sequence
  resolves to \<^verbatim>\<open>unix\<close> and the string unchanged.
\<close>

theorem Address_classifies:
  "Address (proc\<lparr>Listen := ip @ '':'' @ port\<rparr>) = (''tcp'', ip @ '':'' @ port)
   \<and> (digits s \<longrightarrow> Address (proc\<lparr>Listen := s\<rparr>) = (''tcp'', '':'' @ s))
   \<and> (CHR '':'' \<notin> set s \<and> \<not> digits s \<longrightarrow> Address (proc\<lparr>Listen := s\<rparr>) = (''unix'', s))
   \<and> ((\<exists>ip port. s = ip @ '':'' @ port) \<or> digits s \<or> (CHR '':'' \<notin> set s \<and> \<not> digits s))"
proof -
  have a: "Address (proc\<lparr>Listen := ip @ '':'' @ port\<rparr>) = (''tcp'', ip @ '':'' @ port)"
    using Address_colon [of "proc\<lparr>Listen := ip @ '':'' @ port\<rparr>"] by simp
  have b: "digits s \<longrightarrow> Address (proc\<lparr>Listen := s\<rparr>) = (''tcp'', '':'' @ s)"
    by (simp add: Address_def)
  have c: "CHR '':'' \<notin> set s \<and> \<not> digits s \<longrightarrow> Address (proc\<lparr>Listen := s\<rparr>) = (''unix'', s)"
    by (simp add: Address_def)
  have d: "(\<exists>ip port. s = ip @ '':'' @ port) \<or> digits s \<or> (CHR '':'' \<notin> set s \<and> \<not> digits s)"
  proof (cases "CHR '':'' \<in> set s")
    case True
    then obtain ip port where "s = ip @ CHR '':'' # port" by (auto dest: split_list)
    then have "s = ip @ '':'' @ port" by simp
    then show ?thesis by blast
  next
    case False
    then show ?thesis by blast
  qed
  from a b c d show ?thesis by (intro conjI)
qed

theorem Address_classifies_witness:
  "digits ''12345''
   \<and> Address ((NewProcess ''/usr/sbin/php5-fpm'')\<lparr>Listen := ''12345''\<rparr>) = (''tcp'', '':12345'')
   \<and> CHR '':'' \<notin> set ''hello.sock'' \<and> \<not> digits ''hello.sock''
   \<and> Address ((NewProcess ''/usr/sbin/php5-fpm'')\<lparr>Listen := ''hello.sock''\<rparr>) = (''unix'', ''hello.sock'')
   \<and> Address ((NewProcess ''/usr/sbin/php5-fpm'')\<lparr>Listen := ''192.168.123.456'' @ '':'' @ ''12345''\<rparr>)
       = (''tcp'', ''192.168.123.456'' @ '':'' @ ''12345'')"
proof -
  have d1: "digits ''12345''" by (simp add: digits_def is_digit_def)
  have d2: "CHR '':'' \<notin> set ''hello.sock'' \<and> \<not> digits ''hello.sock''" by (simp add: digits_def is_digit_def)
  note t1 = Address_classifies [where proc = "NewProcess ''/usr/sbin/php5-fpm''"
      and ip = "''192.168.123.456''" and port = "''12345''" and s = "''12345''"]
  note t2 = Address_classifies [where proc = "NewProcess ''/usr/sbin/php5-fpm''"
      and ip = "''192.168.123.456''" and port = "''12345''" and s = "''hello.sock''"]
  have a1: "Address ((NewProcess ''/usr/sbin/php5-fpm'')\<lparr>Listen := ''12345''\<rparr>) = (''tcp'', '':'' @ ''12345'')"
    using t1 [THEN conjunct2, THEN conjunct1] d1 by simp
  have a2: "Address ((NewProcess ''/usr/sbin/php5-fpm'')\<lparr>Listen := ''hello.sock''\<rparr>) = (''unix'', ''hello.sock'')"
    using t2 [THEN conjunct2, THEN conjunct2, THEN conjunct1] d2 by simp
  have a3: "Address ((NewProcess ''/usr/sbin/php5-fpm'')\<lparr>Listen := ''192.168.123.456'' @ '':'' @ ''12345''\<rparr>)
       = (''tcp'', ''192.168.123.456'' @ '':'' @ ''12345'')"
    using t1 [THEN conjunct1] by simp
  from d1 d2 a1 a2 a3 show ?thesis by (intro conjI) simp_all
qed

section \<open>Properties of the readiness wait\<close>

text \<open>
  When no attempt on the socket succeeds, the \<^verbatim>\<open>select\<close> ends without a connection
  and at the instant of the timer.
\<close>

lemma dial_unix_never:
  assumes "\<forall>t. \<exists>d e. dial w ''unix'' (Listen proc) t = (d, Inl e)"
  shows "\<exists>t'. dial_unix w proc t = Failed t' \<and> t \<le> t'"
proof -
  from assms obtain d e where "dial w ''unix'' (Listen proc) t = (d, Inl e)" by blast
  then show ?thesis by (simp add: dial_unix_def)
qed

lemma select_wait_never:
  assumes "\<forall>t. \<exists>d e. dial w ''unix'' (Listen proc) t = (d, Inl e)"
  shows "fst (select_wait w proc until t) = None \<and> fst (snd (select_wait w proc until t)) = until"
  using assms
proof (induction w proc until t rule: select_wait.induct)
  case (1 w proc until t)
  obtain t' where f: "dial_unix w proc t = Failed t'"
    using dial_unix_never [OF "1.prems"] by blast
  show ?case
  proof (cases "until \<le> t \<or> until \<le> t'")
    case True
    then show ?thesis using f by (subst (1 2) select_wait.simps) auto
  next
    case False
    then have "fst (select_wait w proc until (t' + 2 * Millisecond)) = None
               \<and> fst (snd (select_wait w proc until (t' + 2 * Millisecond))) = until"
      using "1.IH" [of t'] f "1.prems" by simp
    then show ?thesis using f False
      by (subst (1 2) select_wait.simps) (auto split: prod.splits)
  qed
qed

lemma select_wait_events:
  "e \<in> set (snd (snd (select_wait w proc until t))) \<Longrightarrow>
     e = EvDial ''unix'' (Listen proc) \<or> e = EvSleep (2 * Millisecond) \<or> is_send e"
proof (induction w proc until t rule: select_wait.induct)
  case (1 w proc until t)
  from "1.prems" show ?case
    apply (subst (asm) select_wait.simps)
    using "1.IH" by (auto split: if_splits attempt.splits prod.splits)
qed

lemma select_wait_timeout_instant:
  "fst (select_wait w proc until t) = None \<Longrightarrow> fst (snd (select_wait w proc until t)) = until"
proof (induction w proc until t rule: select_wait.induct)
  case (1 w proc until t)
  from "1.prems" show ?case
    apply (subst (asm) select_wait.simps)
    apply (subst select_wait.simps)
    using "1.IH" by (auto split: if_splits attempt.splits prod.splits)
qed

lemma select_wait_first_event:
  "t < until \<Longrightarrow> \<exists>evs. snd (snd (select_wait w proc until t)) = EvDial ''unix'' (Listen proc) # evs"
  by (subst select_wait.simps) (auto split: attempt.splits prod.splits)

lemma select_wait_sends:
  "filter is_send (snd (snd (select_wait w proc until t)))
     = (case fst (select_wait w proc until t) of None \<Rightarrow> [] | Some c \<Rightarrow> [EvSend c])"
proof (induction w proc until t rule: select_wait.induct)
  case (1 w proc until t)
  show ?case
    apply (subst (1 2) select_wait.simps)
    using "1.IH" by (auto split: if_splits attempt.splits prod.splits)
qed

section \<open>Properties of starting the worker\<close>

text \<open>
  Once the pipes are made and the process runs, the results of \<^verbatim>\<open>Start\<close> are those of
  the \<^verbatim>\<open>select\<close>.
\<close>

lemma Start_spawned:
  assumes "stdout_pipe w = Inr out" and "stderr_pipe w = Inr er"
    and "start_process w (Exec proc)
           [Exec proc, ''--fpm-config'', ConfigFile proc, ''-F'', ''-n'', ''-e''] = Inr p"
    and "select_wait w
           (proc\<lparr>cmd := Some \<lparr>Path = Exec proc,
               Args = [Exec proc, ''--fpm-config'', ConfigFile proc, ''-F'', ''-n'', ''-e''],
               Process = Some p\<rparr>\<rparr>) (4 * Second) 0 = (r, t, evs)"
  shows "Start w proc =
     \<lparr>stdout = Some out, stderr = Some er,
      err = (case r of None \<Rightarrow> Some (Errorf ''time out'') | Some c \<Rightarrow> None),
      proc_after = proc\<lparr>cmd := Some \<lparr>Path = Exec proc,
               Args = [Exec proc, ''--fpm-config'', ConfigFile proc, ''-F'', ''-n'', ''-e''],
               Process = Some p\<rparr>\<rparr>,
      trace = [EvStdoutPipe, EvStderrPipe,
               EvStart (Exec proc) [Exec proc, ''--fpm-config'', ConfigFile proc, ''-F'', ''-n'', ''-e''],
               EvAfter (4 * Second)] @ evs,
      waited = t\<rparr>"
  using assms by (simp add: Start_def Let_def split: option.splits)

lemma Start_never_connectable:
  assumes "stdout_pipe w = Inr out" and "stderr_pipe w = Inr er"
    and "start_process w (Exec proc)
           [Exec proc, ''--fpm-config'', ConfigFile proc, ''-F'', ''-n'', ''-e''] = Inr p"
    and "\<forall>t. \<exists>d e. dial w ''unix'' (Listen proc) t = (d, Inl e)"
  shows "\<exists>evs. Start w proc =
     \<lparr>stdout = Some out, stderr = Some er, err = Some (Errorf ''time out''),
      proc_after = proc\<lparr>cmd := Some \<lparr>Path = Exec proc,
               Args = [Exec proc, ''--fpm-config'', ConfigFile proc, ''-F'', ''-n'', ''-e''],
               Process = Some p\<rparr>\<rparr>,
      trace = [EvStdoutPipe, EvStderrPipe,
               EvStart (Exec proc) [Exec proc, ''--fpm-config'', ConfigFile proc, ''-F'', ''-n'', ''-e''],
               EvAfter (4 * Second)] @ evs,
      waited = 4 * Second\<rparr>
     \<and> (\<forall>e \<in> set evs. e = EvDial ''unix'' (Listen proc) \<or> e = EvSleep (2 * Millisecond))
     \<and> EvDial ''unix'' (Listen proc) \<in> set evs"
proof -
  let ?proc = "proc\<lparr>cmd := Some \<lparr>Path = Exec proc,
               Args = [Exec proc, ''--fpm-config'', ConfigFile proc, ''-F'', ''-n'', ''-e''],
               Process = Some p\<rparr>\<rparr>"
  obtain r t evs where sw: "select_wait w ?proc (4 * Second) 0 = (r, t, evs)"
    by (cases "select_wait w ?proc (4 * Second) 0") auto
  have nv: "\<forall>t. \<exists>d e. dial w ''unix'' (Listen ?proc) t = (d, Inl e)" using assms(4) by simp
  have rt: "r = None \<and> t = 4 * Second" using select_wait_never [OF nv, of "4 * Second" 0] sw by simp
  have "filter is_send evs = []"
    using select_wait_sends [of w ?proc "4 * Second" 0] sw rt by simp
  then have nosend: "\<not> is_send e" if "e \<in> set evs" for e
    using that by (auto simp: filter_empty_conv)
  have ev: "\<forall>e \<in> set evs. e = EvDial ''unix'' (Listen proc) \<or> e = EvSleep (2 * Millisecond)"
    using select_wait_events [of _ w ?proc "4 * Second" 0] sw nosend by auto
  have ne: "EvDial ''unix'' (Listen proc) \<in> set evs"
    using select_wait_first_event [of 0 "4 * Second" w ?proc] sw by (auto simp: Second_def)
  show ?thesis using Start_spawned [OF assms(1-3) sw] rt ev ne by simp
qed

lemma silent_world_never:
  "\<forall>t. \<exists>d e. dial silent_world ''unix'' l t = (d, Inl e)"
  by (simp add: silent_world_def world_of_def)

text \<open>
  C2. When the process has been spawned and no connection attempt ever succeeds,
  \<^verbatim>\<open>Start\<close> returns the error \<^verbatim>\<open>time out\<close> when the four seconds of its timer have
  passed. It has then sent no signal to the process and has not waited for its exit, and
  the descriptor still holds the command with the running process.
\<close>

theorem Start_timeout_leaves_process:
  assumes "stdout_pipe w = Inr out" and "stderr_pipe w = Inr er"
    and "start_process w (Exec proc)
           [Exec proc, ''--fpm-config'', ConfigFile proc, ''-F'', ''-n'', ''-e''] = Inr p"
    and "\<forall>t. \<exists>d e. dial w ''unix'' (Listen proc) t = (d, Inl e)"
  shows "err (Start w proc) = Some (Errorf ''time out'')
         \<and> waited (Start w proc) = 4 * Second
         \<and> filter is_cleanup (trace (Start w proc)) = []
         \<and> cmd (proc_after (Start w proc))
             = Some \<lparr>Path = Exec proc,
                     Args = [Exec proc, ''--fpm-config'', ConfigFile proc, ''-F'', ''-n'', ''-e''],
                     Process = Some p\<rparr>"
proof -
  obtain evs where s: "Start w proc =
     \<lparr>stdout = Some out, stderr = Some er, err = Some (Errorf ''time out''),
      proc_after = proc\<lparr>cmd := Some \<lparr>Path = Exec proc,
               Args = [Exec proc, ''--fpm-config'', ConfigFile proc, ''-F'', ''-n'', ''-e''],
               Process = Some p\<rparr>\<rparr>,
      trace = [EvStdoutPipe, EvStderrPipe,
               EvStart (Exec proc) [Exec proc, ''--fpm-config'', ConfigFile proc, ''-F'', ''-n'', ''-e''],
               EvAfter (4 * Second)] @ evs,
      waited = 4 * Second\<rparr>"
    and evs: "\<forall>e \<in> set evs. e = EvDial ''unix'' (Listen proc) \<or> e = EvSleep (2 * Millisecond)"
    using Start_never_connectable [OF assms] by blast
  from evs have "filter is_cleanup evs = []" by (auto simp: filter_empty_conv)
  with s show ?thesis by simp
qed

theorem Start_timeout_leaves_process_witness:
  "stdout_pipe silent_world = Inr 3 \<and> stderr_pipe silent_world = Inr 4
   \<and> start_process silent_world (Exec socket_proc)
        [Exec socket_proc, ''--fpm-config'', ConfigFile socket_proc, ''-F'', ''-n'', ''-e''] = Inr 4711
   \<and> (\<forall>t. \<exists>d e. dial silent_world ''unix'' (Listen socket_proc) t = (d, Inl e))
   \<and> err (Start silent_world socket_proc) = Some (Errorf ''time out'')
   \<and> waited (Start silent_world socket_proc) = 4 * Second
   \<and> filter is_cleanup (trace (Start silent_world socket_proc)) = []
   \<and> cmd (proc_after (Start silent_world socket_proc))
       = Some \<lparr>Path = ''/usr/sbin/php5-fpm'',
               Args = [''/usr/sbin/php5-fpm'', ''--fpm-config'', ''/srv/etc/fpm.conf'', ''-F'', ''-n'', ''-e''],
               Process = Some 4711\<rparr>"
proof -
  have a: "stdout_pipe silent_world = Inr 3" by (simp add: silent_world_def world_of_def)
  have b: "stderr_pipe silent_world = Inr 4" by (simp add: silent_world_def world_of_def)
  have c: "start_process silent_world (Exec socket_proc)
        [Exec socket_proc, ''--fpm-config'', ConfigFile socket_proc, ''-F'', ''-n'', ''-e''] = Inr 4711"
    by (simp add: silent_world_def world_of_def)
  have d: "\<forall>t. \<exists>d e. dial silent_world ''unix'' (Listen socket_proc) t = (d, Inl e)"
    by (rule silent_world_never)
  show ?thesis
    using a b c d Start_timeout_leaves_process [OF a b c d]
    by (simp add: socket_proc_def)
qed

lemma Start_silent_world:
  "err (Start silent_world socket_proc) = Some (Errorf ''time out'')
   \<and> stdout (Start silent_world socket_proc) = Some 3
   \<and> stderr (Start silent_world socket_proc) = Some 4"
proof -
  have a: "stdout_pipe silent_world = Inr 3" by (simp add: silent_world_def world_of_def)
  have b: "stderr_pipe silent_world = Inr 4" by (simp add: silent_world_def world_of_def)
  have c: "start_process silent_world (Exec socket_proc)
        [Exec socket_proc, ''--fpm-config'', ConfigFile socket_proc, ''-F'', ''-n'', ''-e''] = Inr 4711"
    by (simp add: silent_world_def world_of_def)
  from Start_never_connectable [OF a b c silent_world_never] show ?thesis by auto
qed

text \<open>
  C3. When the pipe for the standard output cannot be made, or the pipe for the standard
  error, or the process cannot be started, \<^verbatim>\<open>Start\<close> returns that failure at once: it
  has started no timer, made no connection attempt, and spent no time waiting.
\<close>

theorem Start_setup_failure_skips_readiness:
  assumes "stdout_pipe w = Inl e
           \<or> (\<exists>out. stdout_pipe w = Inr out \<and> stderr_pipe w = Inl e)
           \<or> (\<exists>out er. stdout_pipe w = Inr out \<and> stderr_pipe w = Inr er
                \<and> start_process w (Exec proc)
                     [Exec proc, ''--fpm-config'', ConfigFile proc, ''-F'', ''-n'', ''-e''] = Inl e)"
  shows "err (Start w proc) = Some (OsError e)
         \<and> filter is_readiness (trace (Start w proc)) = []
         \<and> waited (Start w proc) = 0"
  using assms by (auto simp: Start_def Let_def)

theorem Start_setup_failure_skips_readiness_witness:
  "stdout_pipe (silent_world\<lparr>stdout_pipe := Inl ''too many open files''\<rparr>) = Inl ''too many open files''
   \<and> Start (silent_world\<lparr>stdout_pipe := Inl ''too many open files''\<rparr>) socket_proc
       = \<lparr>stdout = None, stderr = None, err = Some (OsError ''too many open files''),
          proc_after = socket_proc\<lparr>cmd := Some \<lparr>Path = ''/usr/sbin/php5-fpm'',
            Args = [''/usr/sbin/php5-fpm'', ''--fpm-config'', ''/srv/etc/fpm.conf'', ''-F'', ''-n'', ''-e''],
            Process = None\<rparr>\<rparr>,
          trace = [EvStdoutPipe], waited = 0\<rparr>
   \<and> err (Start (silent_world\<lparr>start_process := (\<lambda>path args. Inl ''no such file or directory'')\<rparr>)
             socket_proc) = Some (OsError ''no such file or directory'')
   \<and> filter is_readiness
         (trace (Start (silent_world\<lparr>start_process := (\<lambda>path args. Inl ''no such file or directory'')\<rparr>)
                   socket_proc)) = []"
proof -
  let ?w1 = "silent_world\<lparr>stdout_pipe := Inl ''too many open files''\<rparr>"
  let ?w2 = "silent_world\<lparr>start_process := (\<lambda>path args. Inl ''no such file or directory'')\<rparr>"
  have a: "stdout_pipe ?w1 = Inl ''too many open files''" by simp
  have b: "\<exists>out er. stdout_pipe ?w2 = Inr out \<and> stderr_pipe ?w2 = Inr er
            \<and> start_process ?w2 (Exec socket_proc)
                 [Exec socket_proc, ''--fpm-config'', ConfigFile socket_proc, ''-F'', ''-n'', ''-e'']
               = Inl ''no such file or directory''"
    by (simp add: silent_world_def world_of_def)
  have s1: "Start ?w1 socket_proc
       = \<lparr>stdout = None, stderr = None, err = Some (OsError ''too many open files''),
          proc_after = socket_proc\<lparr>cmd := Some \<lparr>Path = ''/usr/sbin/php5-fpm'',
            Args = [''/usr/sbin/php5-fpm'', ''--fpm-config'', ''/srv/etc/fpm.conf'', ''-F'', ''-n'', ''-e''],
            Process = None\<rparr>\<rparr>,
          trace = [EvStdoutPipe], waited = 0\<rparr>"
    by (simp add: Start_def Let_def socket_proc_def)
  have t1: "err (Start ?w1 socket_proc) = Some (OsError ''too many open files'')"
    using Start_setup_failure_skips_readiness [of ?w1 "''too many open files''" socket_proc] a by blast
  have t2: "err (Start ?w2 socket_proc) = Some (OsError ''no such file or directory'')
            \<and> filter is_readiness (trace (Start ?w2 socket_proc)) = []"
    using Start_setup_failure_skips_readiness [of ?w2 "''no such file or directory''" socket_proc] b
    by blast
  from a s1 t1 t2 show ?thesis by blast
qed

text \<open>
  C10. When \<^verbatim>\<open>Start\<close> fails with the error \<^verbatim>\<open>time out\<close> of the readiness wait, both
  pipes had been made, and \<^verbatim>\<open>Start\<close> returns them beside the error: the caller holds
  the worker's standard output and standard error.
\<close>

theorem Start_timeout_returns_streams:
  assumes "err (Start w proc) = Some (Errorf ''time out'')"
  shows "\<exists>out er. stdout_pipe w = Inr out \<and> stderr_pipe w = Inr er
           \<and> stdout (Start w proc) = Some out \<and> stderr (Start w proc) = Some er"
  using assms
  by (auto simp: Start_def Let_def split: sum.splits prod.splits option.splits)

theorem Start_timeout_returns_streams_witness:
  "err (Start silent_world socket_proc) = Some (Errorf ''time out'')
   \<and> stdout (Start silent_world socket_proc) = Some 3
   \<and> stderr (Start silent_world socket_proc) = Some 4"
proof -
  have h: "err (Start silent_world socket_proc) = Some (Errorf ''time out'')"
    using Start_silent_world by simp
  have "stdout_pipe silent_world = Inr 3" "stderr_pipe silent_world = Inr 4"
    by (simp_all add: silent_world_def world_of_def)
  with h Start_timeout_returns_streams [OF h] show ?thesis by auto
qed

end
